theory Spec2Isabelle
  imports Main "HOL-Library.Sublist"
begin

section \<open>The structured logger (class Logger)\<close>

text \<open>
  A shallow embedding of the class \<^verbatim>\<open>Logger\<close>: its constructor,
  \<^verbatim>\<open>createSubLogger\<close>, the private \<^verbatim>\<open>log\<close> and \<^verbatim>\<open>writeCloudLogging\<close>,
  and the five public emission methods. Console output, sink writes and the
  objects passed as \<^verbatim>\<open>data\<close> are the effects; they live in an explicit state.
  The libraries the class imports (chalk, color-convert, date-fns, strip-ansi,
  util.inspect), the process configuration and the clock are parameters.
\<close>

subsection \<open>Data\<close>

type_synonym KEYWORD = string

record Context =
  name :: string
  color :: "KEYWORD option"

datatype Level = LError | LSuccess | LWarning | LDebug | LInfo

text \<open>The string literal each member of the union type \<^verbatim>\<open>Level\<close> stands for.\<close>

fun level_str :: "Level \<Rightarrow> string" where
  "level_str LError = ''error''"
| "level_str LSuccess = ''success''"
| "level_str LWarning = ''warning''"
| "level_str LDebug = ''debug''"
| "level_str LInfo = ''info''"

text \<open>
  \<^verbatim>\<open>clConfig\<close> is typed \<^verbatim>\<open>any | undefined\<close>; the code reads three properties of
  it, each of which may be missing.
\<close>

record CloudLogging =
  projectId :: "string option"
  saKeyPath :: "string option"
  logName :: "string option"

datatype Logger =
  Logger (ctx: Context) (parentLogger: "Logger option") (store: bool)
         (clConfig: "CloudLogging option")

text \<open>A JavaScript \<^verbatim>\<open>Error\<close>: its \<^verbatim>\<open>name\<close> and \<^verbatim>\<open>message\<close> properties.\<close>

record JsError =
  err_name :: string
  err_message :: string

datatype JsValue = VStr string | VNum int | VBool bool | VErr JsError

text \<open>
  A \<^verbatim>\<open>Record<string, any>\<close> is an object on the heap; \<^verbatim>\<open>data\<close> is a reference to
  one, or \<^verbatim>\<open>null\<close>/\<^verbatim>\<open>undefined\<close> (\<open>None\<close>).
\<close>

type_synonym obj = "string \<rightharpoonup> JsValue"
type_synonym addr = nat

text \<open>
  The first argument of \<^verbatim>\<open>error\<close>: an \<^verbatim>\<open>Error\<close> instance, another object (with
  its \<^verbatim>\<open>message\<close> and \<^verbatim>\<open>name\<close> properties when present and its own string
  conversion), or a string.
\<close>

datatype ErrArg =
  XError JsError
| XObject (x_message: "string option") (x_name: "string option") (x_string: string)
| XString string

subsection \<open>Effects\<close>

datatype console_out = Line string | Dump obj

record entry_metadata =
  severity :: string
  resource_type :: string
  resource_timestamp :: nat
  label_name :: string
  label_color :: string

record sink_write =
  w_projectId :: string
  w_keyFilename :: string
  w_logName :: string
  w_metadata :: entry_metadata
  w_body :: string

record state =
  heap :: "addr \<Rightarrow> obj"
  next_addr :: addr
  console :: "console_out list"
  sink :: "sink_write list"

subsection \<open>The environment\<close>

record envOption =
  quiet :: bool
  withLogTime :: bool
  verbose :: bool

record chalk =
  bgRed_white :: "string \<Rightarrow> string"
  red :: "string \<Rightarrow> string"
  yellow :: "string \<Rightarrow> string"
  bgGreen_white :: "string \<Rightarrow> string"
  green :: "string \<Rightarrow> string"
  gray :: "string \<Rightarrow> string"
  blue :: "string \<Rightarrow> string"
  white :: "string \<Rightarrow> string"
  bold :: "string \<Rightarrow> string"
  rgb :: "nat \<times> nat \<times> nat \<Rightarrow> string \<Rightarrow> string"

record runtime =
  env :: envOption
  node_env :: "string option"
  isPrimary :: bool
  worker_id :: nat
  now :: nat
  dateFormat :: "nat \<Rightarrow> string"
  chalk :: chalk
  keyword_rgb :: "KEYWORD \<Rightarrow> nat \<times> nat \<times> nat"
  stripAnsi :: "string \<Rightarrow> string"
  inspect :: "obj \<Rightarrow> string"

subsection \<open>JavaScript string conversions\<close>

fun digit_char :: "nat \<Rightarrow> char" where
  "digit_char n = char_of (48 + n)"

fun number_str :: "nat \<Rightarrow> string" where
  "number_str n = (if n < 10 then [digit_char n]
                   else number_str (n div 10) @ [digit_char (n mod 10)])"

declare number_str.simps [simp del]

definition upper_char :: "char \<Rightarrow> char" where
  "upper_char c =
     (let n = (of_char c :: nat)
      in if 97 \<le> n \<and> n \<le> 122 then char_of (n - 32) else c)"

definition toUpperCase :: "string \<Rightarrow> string" where
  "toUpperCase s = map upper_char s"

fun join :: "string \<Rightarrow> string list \<Rightarrow> string" where
  "join sep [] = []"
| "join sep [x] = x"
| "join sep (x # y # ys) = x @ sep @ join sep (y # ys)"

text \<open>\<^verbatim>\<open>Error.prototype.toString\<close>.\<close>

definition error_toString :: "JsError \<Rightarrow> string" where
  "error_toString e =
     (if err_name e = [] then err_message e
      else if err_message e = [] then err_name e
      else err_name e @ '': '' @ err_message e)"

subsection \<open>Constructor and createSubLogger\<close>

definition new_Logger :: "string \<Rightarrow> KEYWORD option \<Rightarrow> bool \<Rightarrow> CloudLogging option \<Rightarrow> Logger" where
  "new_Logger context c st cl = Logger \<lparr>name = context, color = c\<rparr> None st cl"

definition createSubLogger :: "Logger \<Rightarrow> string \<Rightarrow> KEYWORD option \<Rightarrow> bool \<Rightarrow> Logger" where
  "createSubLogger this context c st =
     Logger \<lparr>name = context, color = c\<rparr> (Some this) st None"

subsection \<open>writeCloudLogging\<close>

definition writeCloudLogging ::
  "runtime \<Rightarrow> Logger \<Rightarrow> Level \<Rightarrow> string \<Rightarrow> nat \<Rightarrow> addr option \<Rightarrow> state \<Rightarrow> state" where
  "writeCloudLogging rt this level message time data s =
     (case clConfig this of
        None \<Rightarrow> s
      | Some cl \<Rightarrow>
          (case (projectId cl, saKeyPath cl) of
             (Some pid, Some key) \<Rightarrow>
               if pid = [] \<or> key = [] then s
               else
                 let lv = (if level = LSuccess then LInfo else level);
                     logName = (case logName cl of None \<Rightarrow> ''cherrypick'' | Some n \<Rightarrow> n);
                     logMessage = stripAnsi rt message;
                     metadata = \<lparr>severity = toUpperCase (level_str lv),
                                 resource_type = ''global'',
                                 resource_timestamp = time,
                                 label_name = name (ctx this),
                                 label_color = (case color (ctx this) of
                                                  None \<Rightarrow> ''undefined'' | Some k \<Rightarrow> k)\<rparr>;
                     dataString = (case data of
                                     None \<Rightarrow> []
                                   | Some a \<Rightarrow> [CHR 0x0A] @ inspect rt (heap s a))
                 in s\<lparr>sink := sink s @
                        [\<lparr>w_projectId = pid,
                          w_keyFilename = key,
                          w_logName = logName,
                          w_metadata = metadata,
                          w_body = logMessage @ dataString\<rparr>]\<rparr>
           | _ \<Rightarrow> s))"

subsection \<open>log\<close>

text \<open>
  The body of \<^verbatim>\<open>log\<close> after the delegation to the parent is \<open>root_log\<close>; its
  local constants are definitions of their own: \<^verbatim>\<open>worker\<close>, \<^verbatim>\<open>l\<close> (\<open>level_tag\<close>),
  \<^verbatim>\<open>contexts\<close> (with \<open>paint\<close> for the function it maps), \<^verbatim>\<open>m\<close>
  (\<open>styled_message\<close>) and the string \<^verbatim>\<open>log\<close> (\<open>log_text\<close>). The field
  \<^verbatim>\<open>context\<close> of the class is \<open>ctx\<close>. The \<^verbatim>\<open>store\<close> parameter is computed and
  passed to the parent as in the source; the root branch does not mention it.
\<close>

definition worker :: "runtime \<Rightarrow> string" where
  "worker rt = (if isPrimary rt then ''*'' else number_str (worker_id rt))"

definition level_tag :: "runtime \<Rightarrow> Level \<Rightarrow> bool \<Rightarrow> string" where
  "level_tag rt level important =
     (case level of
        LError \<Rightarrow> if important then bgRed_white (chalk rt) ''ERR '' else red (chalk rt) ''ERR ''
      | LWarning \<Rightarrow> yellow (chalk rt) ''WARN''
      | LSuccess \<Rightarrow> if important then bgGreen_white (chalk rt) ''DONE''
                    else green (chalk rt) ''DONE''
      | LDebug \<Rightarrow> gray (chalk rt) ''VERB''
      | LInfo \<Rightarrow> blue (chalk rt) ''INFO'')"

definition paint :: "runtime \<Rightarrow> Context \<Rightarrow> string" where
  "paint rt d =
     (case color d of
        Some k \<Rightarrow> if k = [] then white (chalk rt) (name d)
                  else rgb (chalk rt) (keyword_rgb rt k) (name d)
      | None \<Rightarrow> white (chalk rt) (name d))"

definition contexts :: "runtime \<Rightarrow> Logger \<Rightarrow> Context list \<Rightarrow> string list" where
  "contexts rt this subContexts = map (paint rt) ([ctx this] @ subContexts)"

definition styled_message :: "runtime \<Rightarrow> Level \<Rightarrow> string \<Rightarrow> string" where
  "styled_message rt level message =
     (case level of
        LError \<Rightarrow> red (chalk rt) message
      | LWarning \<Rightarrow> yellow (chalk rt) message
      | LSuccess \<Rightarrow> green (chalk rt) message
      | LDebug \<Rightarrow> gray (chalk rt) message
      | LInfo \<Rightarrow> message)"

definition log_text ::
  "runtime \<Rightarrow> Logger \<Rightarrow> Level \<Rightarrow> string \<Rightarrow> bool \<Rightarrow> Context list \<Rightarrow> string" where
  "log_text rt this level message important subContexts =
     (let time = dateFormat rt (now rt);
          log = level_tag rt level important @ '' '' @ worker rt @ [CHR 0x09] @ ''[''
                @ join '' '' (contexts rt this subContexts) @ '']'' @ [CHR 0x09]
                @ styled_message rt level message
      in if withLogTime (env rt) then gray (chalk rt) time @ '' '' @ log else log)"

definition root_log ::
  "runtime \<Rightarrow> Logger \<Rightarrow> Level \<Rightarrow> string \<Rightarrow> addr option \<Rightarrow> bool \<Rightarrow> Context list
   \<Rightarrow> state \<Rightarrow> state" where
  "root_log rt this level message data important subContexts s =
     (let timestamp = now rt;
          log = log_text rt this level message important subContexts;
          s1 = s\<lparr>console := console s @ [Line (if important then bold (chalk rt) log else log)]\<rparr>
      in case data of
           Some a \<Rightarrow>
             if level = LError then
               writeCloudLogging rt this level log timestamp data
                 (s1\<lparr>console := console s1 @ [Dump (heap s1 a)]\<rparr>)
             else writeCloudLogging rt this level log timestamp None s1
         | None \<Rightarrow> writeCloudLogging rt this level log timestamp None s1)"

function log ::
  "runtime \<Rightarrow> Logger \<Rightarrow> Level \<Rightarrow> string \<Rightarrow> addr option \<Rightarrow> bool \<Rightarrow> Context list \<Rightarrow> bool
   \<Rightarrow> state \<Rightarrow> state" where
  "log rt this level message data important subContexts st s =
     (if quiet (env rt) then s
      else
        let st1 = (if \<not> store this then False else st);
            st2 = (if level = LDebug then False else st1)
        in case parentLogger this of
             Some p \<Rightarrow> log rt p level message data important ([ctx this] @ subContexts) st2 s
           | None \<Rightarrow> root_log rt this level message data important subContexts s)"
  by pat_completeness auto
termination
  by (relation "measure (\<lambda>(rt, this, level, message, data, important, subContexts, st, s). size this)")
     (auto, case_tac this, auto)

subsection \<open>The emission methods\<close>

definition error :: "runtime \<Rightarrow> Logger \<Rightarrow> ErrArg \<Rightarrow> addr option \<Rightarrow> bool \<Rightarrow> state \<Rightarrow> state" where
  "error rt this x data important s =
     (case x of
        XError e \<Rightarrow>
          let (d, s1) = (case data of
                           Some a \<Rightarrow> (a, s)
                         | None \<Rightarrow> (next_addr s,
                                    s\<lparr>heap := (heap s)(next_addr s := Map.empty),
                                      next_addr := Suc (next_addr s)\<rparr>));
              s2 = s1\<lparr>heap := (heap s1)(d := (heap s1 d)(''e'' \<mapsto> VErr e))\<rparr>
          in log rt this LError (error_toString e) (Some d) important [] True s2
      | XObject m n str \<Rightarrow>
          log rt this LError
            (case m of Some t \<Rightarrow> t | None \<Rightarrow> (case n of Some t \<Rightarrow> t | None \<Rightarrow> str))
            data important [] True s
      | XString str \<Rightarrow> log rt this LError str data important [] True s)"

definition warn :: "runtime \<Rightarrow> Logger \<Rightarrow> string \<Rightarrow> addr option \<Rightarrow> bool \<Rightarrow> state \<Rightarrow> state" where
  "warn rt this message data important s =
     log rt this LWarning message data important [] True s"

definition succ :: "runtime \<Rightarrow> Logger \<Rightarrow> string \<Rightarrow> addr option \<Rightarrow> bool \<Rightarrow> state \<Rightarrow> state" where
  "succ rt this message data important s =
     log rt this LSuccess message data important [] True s"

definition debug :: "runtime \<Rightarrow> Logger \<Rightarrow> string \<Rightarrow> addr option \<Rightarrow> bool \<Rightarrow> state \<Rightarrow> state" where
  "debug rt this message data important s =
     (if node_env rt \<noteq> Some ''production'' \<or> verbose (env rt)
      then log rt this LDebug message data important [] True s
      else s)"

definition info :: "runtime \<Rightarrow> Logger \<Rightarrow> string \<Rightarrow> addr option \<Rightarrow> bool \<Rightarrow> state \<Rightarrow> state" where
  "info rt this message data important s =
     log rt this LInfo message data important [] True s"

declare log.simps [simp del]

subsection \<open>The chain of a logger\<close>

text \<open>
  The root above a logger, the contexts strictly below that root on the way down
  to the logger (in that order), and the loggers of the chain from the logger
  itself up to the root.
\<close>

fun root_of :: "Logger \<Rightarrow> Logger" where
  "root_of (Logger c None st cl) = Logger c None st cl"
| "root_of (Logger c (Some p) st cl) = root_of p"

fun descent :: "Logger \<Rightarrow> Context list" where
  "descent (Logger c None st cl) = []"
| "descent (Logger c (Some p) st cl) = descent p @ [c]"

fun chain_of :: "Logger \<Rightarrow> Logger list" where
  "chain_of (Logger c None st cl) = [Logger c None st cl]"
| "chain_of (Logger c (Some p) st cl) = Logger c (Some p) st cl # chain_of p"

text \<open>The two guards of \<^verbatim>\<open>writeCloudLogging\<close>: a config with both credentials.\<close>

definition sink_enabled :: "Logger \<Rightarrow> bool" where
  "sink_enabled this =
     (case clConfig this of
        None \<Rightarrow> False
      | Some cl \<Rightarrow>
          (case (projectId cl, saKeyPath cl) of
             (Some pid, Some key) \<Rightarrow> pid \<noteq> [] \<and> key \<noteq> []
           | _ \<Rightarrow> False))"

definition is_Line :: "console_out \<Rightarrow> bool" where
  "is_Line c = (case c of Line t \<Rightarrow> True | Dump d \<Rightarrow> False)"

definition entry_labels :: "sink_write \<Rightarrow> string \<times> string" where
  "entry_labels w = (label_name (w_metadata w), label_color (w_metadata w))"

definition entry_severity :: "sink_write \<Rightarrow> string" where
  "entry_severity w = severity (w_metadata w)"

subsection \<open>A concrete process and three loggers\<close>

text \<open>
  A primary process whose terminal has no colour support (every chalk style
  returns its argument), and the loggers \<^verbatim>\<open>A\<close>, \<^verbatim>\<open>B = A.createSubLogger('B')\<close>,
  \<^verbatim>\<open>C = B.createSubLogger('C', undefined, false)\<close>, where \<^verbatim>\<open>A\<close> has a sink config
  with both credentials.
\<close>

definition plain_chalk :: chalk where
  "plain_chalk =
     \<lparr>bgRed_white = (\<lambda>t. t), red = (\<lambda>t. t), yellow = (\<lambda>t. t),
      bgGreen_white = (\<lambda>t. t), green = (\<lambda>t. t), gray = (\<lambda>t. t),
      blue = (\<lambda>t. t), white = (\<lambda>t. t), bold = (\<lambda>t. t),
      rgb = (\<lambda>c t. t)\<rparr>"

text \<open>A small stand-in for \<^verbatim>\<open>util.inspect\<close>: it prints the keys \<^verbatim>\<open>k\<close> and \<^verbatim>\<open>e\<close>.\<close>

definition inspect0 :: "obj \<Rightarrow> string" where
  "inspect0 d =
     ''{'' @ (case d ''k'' of Some (VStr v) \<Rightarrow> '' k: '' @ v | _ \<Rightarrow> [])
          @ (case d ''e'' of Some (VErr e) \<Rightarrow> '' e: '' @ error_toString e | _ \<Rightarrow> [])
          @ '' }''"

definition rt0 :: runtime where
  "rt0 =
     \<lparr>env = \<lparr>quiet = False, withLogTime = False, verbose = False\<rparr>,
      node_env = None, isPrimary = True, worker_id = 0, now = 1700000000,
      dateFormat = (\<lambda>t. ''12:00:00''), chalk = plain_chalk,
      keyword_rgb = (\<lambda>k. (255, 255, 255)), stripAnsi = (\<lambda>t. t),
      inspect = inspect0\<rparr>"

definition rt_quiet :: runtime where
  "rt_quiet = rt0\<lparr>env := \<lparr>quiet = True, withLogTime = False, verbose = False\<rparr>\<rparr>"

definition cfg0 :: CloudLogging where
  "cfg0 = \<lparr>projectId = Some ''proj'', saKeyPath = Some ''/key.json'', logName = None\<rparr>"

definition loggerA :: Logger where
  "loggerA = new_Logger ''A'' None True (Some cfg0)"

definition loggerB :: Logger where
  "loggerB = createSubLogger loggerA ''B'' None True"

definition loggerC :: Logger where
  "loggerC = createSubLogger loggerB ''C'' None False"

definition s0 :: state where
  "s0 = \<lparr>heap = (\<lambda>a. Map.empty), next_addr = 0, console = [], sink = []\<rparr>"

text \<open>
  A coloured child of \<^verbatim>\<open>A\<close>, and a state whose heap holds the caller's object
  \<^verbatim>\<open>{ k: 'v' }\<close> at address 0.
\<close>

definition loggerD :: Logger where
  "loggerD = createSubLogger loggerA ''D'' (Some ''blue'') True"

definition s1 :: state where
  "s1 = \<lparr>heap = (\<lambda>a. if a = 0 then [''k'' \<mapsto> VStr ''v''] else Map.empty),
         next_addr = 1, console = [], sink = []\<rparr>"

definition boom :: JsError where
  "boom = \<lparr>err_name = ''Error'', err_message = ''boom''\<rparr>"

section \<open>Properties\<close>

subsection \<open>Delegation and the effects of the root\<close>

lemma log_to_root:
  "\<not> quiet (env rt) \<Longrightarrow>
   log rt this level message data important subContexts st s =
   root_log rt (root_of this) level message data important (descent this @ subContexts) s"
proof (induction rt this level message data important subContexts st s rule: log.induct)
  case (1 rt this level message data important subContexts st s)
  show ?case
  proof (cases this)
    case (Logger c po b cl)
    show ?thesis
    proof (cases po)
      case None
      with Logger 1 show ?thesis by (simp add: log.simps)
    next
      case (Some p)
      with Logger 1 show ?thesis by (simp add: log.simps Let_def)
    qed
  qed
qed

lemma log_quiet:
  "quiet (env rt) \<Longrightarrow> log rt this level message data important subContexts st s = s"
  by (simp add: log.simps)

lemma chain_contexts: "rev (map ctx (chain_of this)) = ctx (root_of this) # descent this"
  by (induction this rule: root_of.induct) simp_all

lemma length_chain: "length (chain_of this) = Suc (length (descent this))"
  by (induction this rule: root_of.induct) simp_all

lemma wcl_console [simp]:
  "console (writeCloudLogging rt this level message time data s) = console s"
  by (simp add: writeCloudLogging_def Let_def split: option.splits prod.splits)

lemma wcl_heap [simp]:
  "heap (writeCloudLogging rt this level message time data s) = heap s"
  by (simp add: writeCloudLogging_def Let_def split: option.splits prod.splits)

lemma wcl_disabled:
  "\<not> sink_enabled this \<Longrightarrow> writeCloudLogging rt this level message time data s = s"
  by (auto simp add: writeCloudLogging_def sink_enabled_def split: option.splits prod.splits)

lemma wcl_length:
  "sink_enabled this \<Longrightarrow>
   length (sink (writeCloudLogging rt this level message time data s)) = Suc (length (sink s))"
  by (auto simp add: writeCloudLogging_def sink_enabled_def Let_def split: option.splits prod.splits)

lemma wcl_metadata:
  "sink_enabled this \<Longrightarrow>
   map w_metadata (sink (writeCloudLogging rt this level message time data s)) =
   map w_metadata (sink s) @
     [\<lparr>severity = toUpperCase (level_str (if level = LSuccess then LInfo else level)),
       resource_type = ''global'', resource_timestamp = time,
       label_name = name (ctx this),
       label_color = (case color (ctx this) of None \<Rightarrow> ''undefined'' | Some k \<Rightarrow> k)\<rparr>]"
  by (auto simp add: writeCloudLogging_def sink_enabled_def Let_def split: option.splits prod.splits)

lemma wcl_body:
  "sink_enabled this \<Longrightarrow>
   map w_body (sink (writeCloudLogging rt this level message time data s)) =
   map w_body (sink s) @
     [stripAnsi rt message @
      (case data of None \<Rightarrow> [] | Some a \<Rightarrow> CHR 0x0A # inspect rt (heap s a))]"
  by (auto simp add: writeCloudLogging_def sink_enabled_def Let_def split: option.splits prod.splits)

lemma root_log_console:
  "console (root_log rt this level message data important subContexts s) =
   console s @
     Line (if important
           then bold (chalk rt) (log_text rt this level message important subContexts)
           else log_text rt this level message important subContexts) #
     (case data of
        Some a \<Rightarrow> if level = LError then [Dump (heap s a)] else []
      | None \<Rightarrow> [])"
  by (simp add: root_log_def Let_def split: option.splits)

lemma root_log_heap [simp]:
  "heap (root_log rt this level message data important subContexts s) = heap s"
  by (simp add: root_log_def Let_def split: option.splits)

lemma root_log_length:
  "length (sink (root_log rt this level message data important subContexts s)) =
   length (sink s) + (if sink_enabled this then 1 else 0)"
  by (simp add: root_log_def Let_def wcl_length wcl_disabled split: option.splits)

lemma root_log_metadata:
  "sink_enabled this \<Longrightarrow>
   map w_metadata (sink (root_log rt this level message data important subContexts s)) =
   map w_metadata (sink s) @
     [\<lparr>severity = toUpperCase (level_str (if level = LSuccess then LInfo else level)),
       resource_type = ''global'', resource_timestamp = now rt,
       label_name = name (ctx this),
       label_color = (case color (ctx this) of None \<Rightarrow> ''undefined'' | Some k \<Rightarrow> k)\<rparr>]"
  by (simp add: root_log_def Let_def wcl_metadata split: option.splits)

lemma root_log_body:
  "sink_enabled this \<Longrightarrow>
   map w_body (sink (root_log rt this level message data important subContexts s)) =
   map w_body (sink s) @
     [stripAnsi rt (log_text rt this level message important subContexts) @
      (case data of
         Some a \<Rightarrow> if level = LError then CHR 0x0A # inspect rt (heap s a) else []
       | None \<Rightarrow> [])]"
  by (simp add: root_log_def Let_def wcl_body split: option.splits)

lemma log_heap [simp]:
  "heap (log rt this level message data important subContexts st s) = heap s"
  by (cases "quiet (env rt)") (simp_all add: log_quiet log_to_root)

lemma severity_names:
  "toUpperCase ''error'' = ''ERROR''"
  "toUpperCase ''warning'' = ''WARNING''"
  "toUpperCase ''debug'' = ''DEBUG''"
  "toUpperCase ''info'' = ''INFO''"
  "toUpperCase ''success'' = ''SUCCESS''"
  by code_simp+

subsection \<open>Facts about the concrete process and loggers\<close>

lemma entry_severity_map: "map entry_severity ws = map severity (map w_metadata ws)"
  by (simp add: entry_severity_def)

lemma entry_labels_map:
  "map entry_labels ws = map (\<lambda>m. (label_name m, label_color m)) (map w_metadata ws)"
  by (simp add: entry_labels_def)

lemma root_log_lines:
  "length (filter is_Line (console (root_log rt this level message data important subContexts s))) =
   Suc (length (filter is_Line (console s)))"
  by (simp add: root_log_console is_Line_def split: option.splits)

lemma rt0_not_quiet: "\<not> quiet (env rt0)"
  by (simp add: rt0_def)

lemma scenario_roots:
  "root_of loggerA = loggerA" "root_of loggerB = loggerA" "root_of loggerC = loggerA"
  by (simp_all add: loggerC_def loggerB_def loggerA_def createSubLogger_def new_Logger_def)

lemma scenario_descent:
  "descent loggerA = []"
  "descent loggerB = [\<lparr>name = ''B'', color = None\<rparr>]"
  "descent loggerC = [\<lparr>name = ''B'', color = None\<rparr>, \<lparr>name = ''C'', color = None\<rparr>]"
  by (simp_all add: loggerC_def loggerB_def loggerA_def createSubLogger_def new_Logger_def)

lemma scenario_chain:
  "chain_of loggerC = [loggerC, loggerB, loggerA]"
  by (simp add: loggerC_def loggerB_def loggerA_def createSubLogger_def new_Logger_def)

lemma scenario_ctx:
  "ctx loggerA = \<lparr>name = ''A'', color = None\<rparr>"
  "ctx loggerB = \<lparr>name = ''B'', color = None\<rparr>"
  "ctx loggerC = \<lparr>name = ''C'', color = None\<rparr>"
  by (simp_all add: loggerC_def loggerB_def loggerA_def createSubLogger_def new_Logger_def)

lemma scenario_store:
  "store loggerA" "store loggerB" "\<not> store loggerC"
  by (simp_all add: loggerC_def loggerB_def loggerA_def createSubLogger_def new_Logger_def)

lemma loggerA_enabled: "sink_enabled loggerA"
  by (simp add: sink_enabled_def loggerA_def new_Logger_def cfg0_def)

lemma s0_empty: "console s0 = []" "sink s0 = []"
  by (simp_all add: s0_def)

lemma rt0_paint: "paint rt0 \<lparr>name = n, color = None\<rparr> = n"
  by (simp add: paint_def rt0_def plain_chalk_def)

lemma rt0_log_text:
  "log_text rt0 this level message important subContexts =
   (case level of LError \<Rightarrow> ''ERR '' | LWarning \<Rightarrow> ''WARN'' | LSuccess \<Rightarrow> ''DONE''
    | LDebug \<Rightarrow> ''VERB'' | LInfo \<Rightarrow> ''INFO'') @ '' *'' @ [CHR 0x09] @ ''[''
   @ join '' '' (map (paint rt0) (ctx this # subContexts)) @ '']'' @ [CHR 0x09] @ message"
  by (cases level)
     (simp_all add: log_text_def level_tag_def worker_def contexts_def styled_message_def
        rt0_def plain_chalk_def Let_def)

lemma log_text_unfold:
  "log_text rt this level message important subContexts =
   (if withLogTime (env rt) then gray (chalk rt) (dateFormat rt (now rt)) @ '' '' else [])
   @ level_tag rt level important @ '' '' @ worker rt @ [CHR 0x09] @ ''[''
   @ join '' '' (map (paint rt) (ctx this # subContexts)) @ '']'' @ [CHR 0x09]
   @ styled_message rt level message"
  by (simp add: log_text_def contexts_def Let_def)

lemma scenario_D:
  "root_of loggerD = loggerA" "ctx loggerD = \<lparr>name = ''D'', color = Some ''blue''\<rparr>"
  by (simp_all add: loggerD_def loggerA_def createSubLogger_def new_Logger_def)

lemma s1_empty: "console s1 = []" "sink s1 = []" "heap s1 0 = [''k'' \<mapsto> VStr ''v'']"
  by (simp_all add: s1_def)

lemma rt0_strip: "stripAnsi rt0 t = t" "inspect rt0 = inspect0"
  by (simp_all add: rt0_def)

subsection \<open>The method error\<close>

lemma sublist_message:
  assumes keeps: "sublist message (red (chalk rt) message)" and u: "sublist u message"
  shows "sublist u (log_text rt this LError message important subContexts)"
proof -
  from u obtain p1 q1 where m: "message = p1 @ u @ q1"
    by (auto simp add: sublist_def)
  from keeps obtain p2 q2 where r: "red (chalk rt) message = p2 @ message @ q2"
    by (auto simp add: sublist_def)
  obtain pre where l: "log_text rt this LError message important subContexts =
      pre @ red (chalk rt) message"
    by (simp add: log_text_unfold styled_message_def)
  have "log_text rt this LError message important subContexts = (pre @ p2 @ p1) @ u @ (q1 @ q2)"
    by (simp only: l r) (simp add: m)
  then show ?thesis
    by (simp only: sublist_appendI)
qed

lemma sublist_error_toString: "sublist (err_message e) (error_toString e)"
proof -
  have "error_toString e = [] @ err_message e @ []
      \<or> (err_message e = [] \<and> error_toString e = [] @ [] @ err_name e)
      \<or> error_toString e = (err_name e @ '': '') @ err_message e @ []"
    by (simp add: error_toString_def)
  then show ?thesis
    by (metis sublist_appendI)
qed

lemma error_string: 
  "error rt this (XString m) data important s = log rt this LError m data important [] True s"
  by (simp add: error_def)

lemma error_Error_none:
  "error rt this (XError e) None important s =
   log rt this LError (error_toString e) (Some (next_addr s)) important [] True
     (s\<lparr>next_addr := Suc (next_addr s), heap := (heap s)(next_addr s := [''e'' \<mapsto> VErr e])\<rparr>)"
  by (simp add: error_def)

lemma error_Error_some:
  "error rt this (XError e) (Some a) important s =
   log rt this LError (error_toString e) (Some a) important [] True
     (s\<lparr>heap := (heap s)(a := (heap s a)(''e'' \<mapsto> VErr e))\<rparr>)"
  by (simp add: error_def)


lemma error_object:
  "error rt this (XObject mo no so) data important s =
   log rt this LError
     (case mo of Some t \<Rightarrow> t | None \<Rightarrow> (case no of Some t \<Rightarrow> t | None \<Rightarrow> so))
     data important [] True s"
  by (simp add: error_def)

subsection \<open>The console line and the sink writes of a call\<close>

lemma log_console_line:
  "\<not> quiet (env rt) \<Longrightarrow>
   console (log rt this level message data important [] st s) =
   console s @
     Line ((if important then bold (chalk rt) else (\<lambda>t. t))
             ((if withLogTime (env rt)
               then gray (chalk rt) (dateFormat rt (now rt)) @ '' '' else [])
              @ level_tag rt level important @ '' '' @ worker rt @ [CHR 0x09] @ ''[''
              @ join '' '' (map (paint rt) (rev (map ctx (chain_of this))))
              @ '']'' @ [CHR 0x09] @ styled_message rt level message)) #
     (case data of
        Some a \<Rightarrow> if level = LError then [Dump (heap s a)] else []
      | None \<Rightarrow> [])"
  by (simp add: log_to_root root_log_console log_text_unfold chain_contexts)

lemma log_sink_length:
  "\<not> quiet (env rt) \<Longrightarrow>
   length (sink (log rt this level message data important [] st s)) =
   length (sink s) + (if sink_enabled (root_of this) then 1 else 0)"
  by (simp add: log_to_root root_log_length)

subsection \<open>The quiet flag\<close>

text \<open>
  C5. When the process-wide quiet flag is set, each of the five emission methods
  (\<^verbatim>\<open>error\<close>, \<^verbatim>\<open>warn\<close>, \<^verbatim>\<open>succ\<close>, \<^verbatim>\<open>debug\<close>, \<^verbatim>\<open>info\<close>), on any logger at any depth and
  with any arguments, leaves the console output and the sink writes as they were.
\<close>

theorem quiet_suppresses_everything:
  assumes "quiet (env rt)"
  shows "console (error rt this x data important s) = console s
       \<and> sink (error rt this x data important s) = sink s
       \<and> console (warn rt this message data important s) = console s
       \<and> sink (warn rt this message data important s) = sink s
       \<and> console (succ rt this message data important s) = console s
       \<and> sink (succ rt this message data important s) = sink s
       \<and> console (debug rt this message data important s) = console s
       \<and> sink (debug rt this message data important s) = sink s
       \<and> console (info rt this message data important s) = console s
       \<and> sink (info rt this message data important s) = sink s"
proof -
  have e: "console (error rt this x data important s) = console s
         \<and> sink (error rt this x data important s) = sink s"
    using assms by (cases x) (simp_all add: error_def log_quiet Let_def split: option.splits)
  have others:
    "warn rt this message data important s = s"
    "succ rt this message data important s = s"
    "debug rt this message data important s = s"
    "info rt this message data important s = s"
    using assms by (simp_all add: warn_def succ_def debug_def info_def log_quiet)
  from e others show ?thesis by simp
qed

theorem quiet_suppresses_everything_witness:
  "quiet (env rt_quiet)
   \<and> console (error rt_quiet loggerC (XError boom) None True s0) = []
   \<and> sink (error rt_quiet loggerC (XError boom) None True s0) = []
   \<and> console (warn rt_quiet loggerC ''x'' None True s0) = []
   \<and> sink (warn rt_quiet loggerC ''x'' None True s0) = []
   \<and> console (succ rt_quiet loggerC ''x'' None True s0) = []
   \<and> sink (succ rt_quiet loggerC ''x'' None True s0) = []
   \<and> console (debug rt_quiet loggerC ''x'' None True s0) = []
   \<and> sink (debug rt_quiet loggerC ''x'' None True s0) = []
   \<and> console (info rt_quiet loggerC ''x'' None True s0) = []
   \<and> sink (info rt_quiet loggerC ''x'' None True s0) = []"
proof -
  have q: "quiet (env rt_quiet)" by (simp add: rt_quiet_def)
  have z: "console s0 = []" "sink s0 = []" by (simp_all add: s0_def)
  show ?thesis
    using q z quiet_suppresses_everything [OF q, of loggerC "XError boom" None True s0 "''x''"]
    by simp
qed

subsection \<open>The store flag\<close>

text \<open>
  C1. The claim is that a logger with \<^verbatim>\<open>store = false\<close> anywhere in the chain keeps
  the call from the sink while the console line is still printed. \<^verbatim>\<open>log\<close> computes
  the flag and passes it up, but the root never reads it: whenever the call is not
  quiet and the root has a config with both credentials, the sink receives exactly
  one write and the console one line, whatever the \<^verbatim>\<open>store\<close> fields and the
  \<^verbatim>\<open>store\<close> argument are.
\<close>

theorem store_flag_never_consulted:
  assumes "\<not> quiet (env rt)" and "sink_enabled (root_of this)"
  shows "length (sink (log rt this level message data important [] st s)) = Suc (length (sink s))
       \<and> length (filter is_Line (console (log rt this level message data important [] st s))) =
           Suc (length (filter is_Line (console s)))"
  using assms by (simp add: log_to_root root_log_length root_log_lines)

theorem store_flag_never_consulted_witness:
  "\<not> store loggerC \<and> \<not> quiet (env rt0) \<and> sink_enabled (root_of loggerC)
   \<and> length (sink (info rt0 loggerC ''x'' None False s0)) = 1
   \<and> length (filter is_Line (console (info rt0 loggerC ''x'' None False s0))) = 1"
proof -
  have e: "sink_enabled (root_of loggerC)"
    by (simp add: scenario_roots loggerA_enabled)
  show ?thesis
    using store_flag_never_consulted [OF rt0_not_quiet e, of LInfo "''x''" None False True s0]
    by (simp add: e rt0_not_quiet scenario_store info_def s0_empty)
qed

text \<open>
  C2. The claim is that a debug line that reaches the root is never written to the
  sink. \<^verbatim>\<open>log\<close> sets its \<^verbatim>\<open>store\<close> argument to false for the level
  \<^verbatim>\<open>debug\<close>, but the root never reads it: a debug call that passes the quiet flag
  and the production/verbose gate, under a root with both credentials, appends one
  sink write of severity \<^verbatim>\<open>DEBUG\<close>.
\<close>

theorem debug_is_forwarded_to_sink:
  assumes "\<not> quiet (env rt)" and "sink_enabled (root_of this)"
    and "node_env rt \<noteq> Some ''production'' \<or> verbose (env rt)"
  shows "map entry_severity (sink (debug rt this message data important s)) =
         map entry_severity (sink s) @ [''DEBUG'']"
  using assms
  by (simp add: debug_def log_to_root entry_severity_map root_log_metadata severity_names)

theorem debug_is_forwarded_to_sink_witness:
  "store loggerA \<and> \<not> quiet (env rt0) \<and> sink_enabled (root_of loggerA)
   \<and> node_env rt0 \<noteq> Some ''production''
   \<and> map entry_severity (sink (debug rt0 loggerA ''x'' None False s0)) = [''DEBUG'']"
proof -
  have e: "sink_enabled (root_of loggerA)"
    by (simp add: scenario_roots loggerA_enabled)
  have n: "node_env rt0 \<noteq> Some ''production''"
    by (simp add: rt0_def)
  have n': "node_env rt0 \<noteq> Some ''production'' \<or> verbose (env rt0)"
    using n by simp
  show ?thesis
    using debug_is_forwarded_to_sink [OF rt0_not_quiet e n', of "''x''" None False s0]
    by (simp add: e n rt0_not_quiet scenario_store s0_empty)
qed

subsection \<open>Delegation to the root\<close>

text \<open>
  C3. For a chain of \<open>N\<close> nested child loggers (\<open>N + 1\<close> loggers with the root),
  a call of \<^verbatim>\<open>error\<close>, \<^verbatim>\<open>warn\<close>, \<^verbatim>\<open>succ\<close>, \<^verbatim>\<open>debug\<close> or \<^verbatim>\<open>info\<close> at the deepest
  child that is not quiet (and, for \<^verbatim>\<open>debug\<close>, passes the production/verbose
  gate) appends exactly one line to the console. The label of that line, between
  the brackets, joins the painted names of all \<open>N + 1\<close> contexts of the chain. An
  error with data prints the data object after the line, and nothing else is
  printed. The sink receives one write when the root has both credentials and none
  otherwise, whatever \<open>N\<close> is: the loggers between the caller and the root print
  and write nothing.
\<close>

theorem emission_dispatches_once_at_root:
  fixes N :: nat and rt this x message data important s
  assumes "\<not> quiet (env rt)" and "length (chain_of this) = Suc N"
  defines "names \<equiv> map (paint rt) (rev (map ctx (chain_of this)))"
  defines "line \<equiv> \<lambda>level text.
      Line ((if important then bold (chalk rt) else (\<lambda>t. t))
              ((if withLogTime (env rt)
                then gray (chalk rt) (dateFormat rt (now rt)) @ '' '' else [])
               @ level_tag rt level important @ '' '' @ worker rt @ [CHR 0x09] @ ''[''
               @ join '' '' names @ '']'' @ [CHR 0x09] @ styled_message rt level text))"
  defines "writes \<equiv> (if sink_enabled (root_of this) then 1 else 0)"
  defines "gate \<equiv> (node_env rt \<noteq> Some ''production'' \<or> verbose (env rt))"
  shows "length names = Suc N
       \<and> console (error rt this x data important s) =
           console s @
             line LError
               (case x of
                  XError e \<Rightarrow> error_toString e
                | XObject mo no so \<Rightarrow>
                    (case mo of Some t \<Rightarrow> t
                     | None \<Rightarrow> (case no of Some t \<Rightarrow> t | None \<Rightarrow> so))
                | XString m \<Rightarrow> m) #
             (case x of
                XError e \<Rightarrow>
                  [Dump ((case data of Some a \<Rightarrow> heap s a | None \<Rightarrow> Map.empty)
                           (''e'' \<mapsto> VErr e))]
              | XObject mo no so \<Rightarrow> (case data of Some a \<Rightarrow> [Dump (heap s a)] | None \<Rightarrow> [])
              | XString m \<Rightarrow> (case data of Some a \<Rightarrow> [Dump (heap s a)] | None \<Rightarrow> []))
       \<and> console (warn rt this message data important s) = console s @ [line LWarning message]
       \<and> console (succ rt this message data important s) = console s @ [line LSuccess message]
       \<and> console (debug rt this message data important s) =
           console s @ (if gate then [line LDebug message] else [])
       \<and> console (info rt this message data important s) = console s @ [line LInfo message]
       \<and> length (sink (error rt this x data important s)) = length (sink s) + writes
       \<and> length (sink (warn rt this message data important s)) = length (sink s) + writes
       \<and> length (sink (succ rt this message data important s)) = length (sink s) + writes
       \<and> length (sink (debug rt this message data important s)) =
           length (sink s) + (if gate then writes else 0)
       \<and> length (sink (info rt this message data important s)) = length (sink s) + writes"
proof -
  note q = assms(1)
  have n: "length names = Suc N"
    using assms(2) by (simp add: names_def)
  have ce: "console (error rt this x data important s) =
           console s @
             line LError
               (case x of
                  XError e \<Rightarrow> error_toString e
                | XObject mo no so \<Rightarrow>
                    (case mo of Some t \<Rightarrow> t
                     | None \<Rightarrow> (case no of Some t \<Rightarrow> t | None \<Rightarrow> so))
                | XString m \<Rightarrow> m) #
             (case x of
                XError e \<Rightarrow>
                  [Dump ((case data of Some a \<Rightarrow> heap s a | None \<Rightarrow> Map.empty)
                           (''e'' \<mapsto> VErr e))]
              | XObject mo no so \<Rightarrow> (case data of Some a \<Rightarrow> [Dump (heap s a)] | None \<Rightarrow> [])
              | XString m \<Rightarrow> (case data of Some a \<Rightarrow> [Dump (heap s a)] | None \<Rightarrow> []))"
  proof (cases x)
    case (XError e)
    show ?thesis
    proof (cases data)
      case None
      with XError q show ?thesis
        by (simp add: error_Error_none log_console_line line_def names_def)
    next
      case (Some a)
      with XError q show ?thesis
        by (simp add: error_Error_some log_console_line line_def names_def)
    qed
  next
    case (XObject mo no so)
    with q show ?thesis
      by (simp add: error_object log_console_line line_def names_def split: option.splits)
  next
    case (XString m)
    with q show ?thesis
      by (simp add: error_string log_console_line line_def names_def split: option.splits)
  qed
  have cw: "console (warn rt this message data important s) = console s @ [line LWarning message]"
    using q by (simp add: warn_def log_console_line line_def names_def split: option.splits)
  have cs: "console (succ rt this message data important s) = console s @ [line LSuccess message]"
    using q by (simp add: succ_def log_console_line line_def names_def split: option.splits)
  have cd: "console (debug rt this message data important s) =
           console s @ (if gate then [line LDebug message] else [])"
    using q by (simp add: debug_def gate_def log_console_line line_def names_def split: option.splits)
  have ci: "console (info rt this message data important s) = console s @ [line LInfo message]"
    using q by (simp add: info_def log_console_line line_def names_def split: option.splits)
  have se: "length (sink (error rt this x data important s)) = length (sink s) + writes"
  proof (cases x)
    case (XError e)
    with q show ?thesis
      by (cases data) (simp_all add: error_Error_none error_Error_some log_sink_length writes_def)
  next
    case (XObject mo no so)
    with q show ?thesis by (simp add: error_object log_sink_length writes_def)
  next
    case (XString m)
    with q show ?thesis by (simp add: error_string log_sink_length writes_def)
  qed
  have sw: "length (sink (warn rt this message data important s)) = length (sink s) + writes"
    using q by (simp add: warn_def log_sink_length writes_def)
  have ss: "length (sink (succ rt this message data important s)) = length (sink s) + writes"
    using q by (simp add: succ_def log_sink_length writes_def)
  have sd: "length (sink (debug rt this message data important s)) =
           length (sink s) + (if gate then writes else 0)"
    using q by (simp add: debug_def gate_def log_sink_length writes_def)
  have si: "length (sink (info rt this message data important s)) = length (sink s) + writes"
    using q by (simp add: info_def log_sink_length writes_def)
  from n ce cw cs cd ci se sw ss sd si show ?thesis by blast
qed


theorem emission_dispatches_once_at_root_witness:
  "\<not> quiet (env rt0) \<and> length (chain_of loggerC) = Suc 2
   \<and> console (error rt0 loggerC (XString ''x'') None False s0) =
       [Line (''ERR  *'' @ [CHR 0x09] @ ''[A B C]'' @ [CHR 0x09] @ ''x'')]
   \<and> console (warn rt0 loggerC ''x'' None False s0) =
       [Line (''WARN *'' @ [CHR 0x09] @ ''[A B C]'' @ [CHR 0x09] @ ''x'')]
   \<and> console (succ rt0 loggerC ''x'' None False s0) =
       [Line (''DONE *'' @ [CHR 0x09] @ ''[A B C]'' @ [CHR 0x09] @ ''x'')]
   \<and> console (debug rt0 loggerC ''x'' None False s0) =
       [Line (''VERB *'' @ [CHR 0x09] @ ''[A B C]'' @ [CHR 0x09] @ ''x'')]
   \<and> console (info rt0 loggerC ''x'' None False s0) =
       [Line (''INFO *'' @ [CHR 0x09] @ ''[A B C]'' @ [CHR 0x09] @ ''x'')]
   \<and> length (sink (error rt0 loggerC (XString ''x'') None False s0)) = 1
   \<and> length (sink (warn rt0 loggerC ''x'' None False s0)) = 1
   \<and> length (sink (succ rt0 loggerC ''x'' None False s0)) = 1
   \<and> length (sink (debug rt0 loggerC ''x'' None False s0)) = 1
   \<and> length (sink (info rt0 loggerC ''x'' None False s0)) = 1"
proof -
  have l: "length (chain_of loggerC) = Suc 2"
    by (simp add: scenario_chain)
  have r: "withLogTime (env rt0) = False" "node_env rt0 = None" "worker rt0 = ''*''"
    "level_tag rt0 LError False = ''ERR ''" "level_tag rt0 LWarning False = ''WARN''"
    "level_tag rt0 LSuccess False = ''DONE''" "level_tag rt0 LDebug False = ''VERB''"
    "level_tag rt0 LInfo False = ''INFO''"
    by (simp_all add: rt0_def plain_chalk_def level_tag_def worker_def)
  have m: "styled_message rt0 level t = t" for level t
    by (cases level) (simp_all add: rt0_def plain_chalk_def styled_message_def)
  show ?thesis
    using emission_dispatches_once_at_root
            [OF rt0_not_quiet l, of "XString ''x''" None False s0 "''x''"]
    by (simp add: l rt0_not_quiet r m scenario_chain scenario_ctx scenario_roots loggerA_enabled
          s0_empty rt0_paint)
qed

subsection \<open>The order of the context label\<close>

text \<open>
  C4, as claimed: the label lists the immediate caller's context first and the
  ancestors after it, so that \<^verbatim>\<open>C.info("x")\<close> under \<^verbatim>\<open>B\<close> under \<^verbatim>\<open>A\<close> renders
  \<^verbatim>\<open>[C B A]\<close>. The code renders \<^verbatim>\<open>[A B C]\<close>: every hop puts its own context in
  front of the contexts it received, so the root's context ends up first.
\<close>

theorem label_leaf_first_counterexample:
  "console (info rt0 loggerC ''x'' None False s0) =
     [Line (''INFO *'' @ [CHR 0x09] @ ''[A B C]'' @ [CHR 0x09] @ ''x'')]
   \<and> console (info rt0 loggerC ''x'' None False s0) \<noteq>
     [Line (''INFO *'' @ [CHR 0x09] @ ''[C B A]'' @ [CHR 0x09] @ ''x'')]"
  by (simp add: info_def log_to_root [OF rt0_not_quiet] root_log_console scenario_roots
        scenario_descent scenario_ctx s0_empty rt0_log_text rt0_paint)

text \<open>
  C4, amended. For a call that is not quiet, the label of the console line joins
  the painted context names in the order root first, then each descendant, the
  immediate caller's (leafmost) context last: the reverse of the chain read from
  the caller up to the root. In the scenario the line carries \<^verbatim>\<open>[A B C]\<close>.
\<close>

theorem context_label_root_first:
  assumes "\<not> quiet (env rt)"
  shows "console (log rt this level message data important [] True s) =
         console s @
           Line ((if important then bold (chalk rt) else (\<lambda>t. t))
                   ((if withLogTime (env rt)
                     then gray (chalk rt) (dateFormat rt (now rt)) @ '' '' else [])
                    @ level_tag rt level important @ '' '' @ worker rt @ [CHR 0x09] @ ''[''
                    @ join '' '' (map (paint rt) (rev (map ctx (chain_of this))))
                    @ '']'' @ [CHR 0x09] @ styled_message rt level message)) #
           (case data of
              Some a \<Rightarrow> if level = LError then [Dump (heap s a)] else []
            | None \<Rightarrow> [])"
  using assms
  by (simp add: log_to_root root_log_console log_text_unfold chain_contexts)

theorem context_label_root_first_witness:
  "\<not> quiet (env rt0)
   \<and> rev (map ctx (chain_of loggerC)) = [ctx loggerA, ctx loggerB, ctx loggerC]
   \<and> console (log rt0 loggerC LInfo ''x'' None False [] True s0) =
       [Line (''INFO *'' @ [CHR 0x09] @ ''[A B C]'' @ [CHR 0x09] @ ''x'')]"
proof -
  have a: "console (log rt0 loggerC LInfo ''x'' None False [] True s0) =
       [Line (''INFO *'' @ [CHR 0x09] @ ''[A B C]'' @ [CHR 0x09] @ ''x'')]"
    using context_label_root_first [OF rt0_not_quiet, of loggerC LInfo "''x''" None False s0]
    by (simp add: scenario_chain scenario_ctx s0_empty rt0_paint)
       (simp add: rt0_def plain_chalk_def level_tag_def worker_def styled_message_def)
  have b: "rev (map ctx (chain_of loggerC)) = [ctx loggerA, ctx loggerB, ctx loggerC]"
    by (simp add: scenario_chain)
  from rt0_not_quiet a b show ?thesis by blast
qed

subsection \<open>The metadata of a sink write\<close>

text \<open>
  C6, as claimed: the labels of a sink write carry the name and colour of the
  context of the logger the method was called on. For \<^verbatim>\<open>D = A.createSubLogger('D',
  'blue')\<close> the write of \<^verbatim>\<open>D.info("x")\<close> is labelled \<^verbatim>\<open>A\<close> / \<^verbatim>\<open>undefined\<close>, the
  root's context.
\<close>

theorem sink_labels_leafmost_counterexample:
  "map entry_labels (sink (info rt0 loggerD ''x'' None False s0)) = [(''A'', ''undefined'')]
   \<and> (name (ctx loggerD), color (ctx loggerD)) = (''D'', Some ''blue'')
   \<and> map entry_labels (sink (info rt0 loggerD ''x'' None False s0)) \<noteq> [(''D'', ''blue'')]"
  by (simp add: info_def log_to_root [OF rt0_not_quiet] entry_labels_map root_log_metadata
        scenario_D loggerA_enabled scenario_ctx s0_empty)

text \<open>
  C6, amended. Every sink write of a call that is not quiet, under a root with both
  credentials, attaches the metadata: the upper-cased severity (of \<^verbatim>\<open>info\<close> for a
  success), the resource descriptor of type \<^verbatim>\<open>global\<close> with the timestamp taken at
  the root, and labels carrying the name and colour tag of the root logger's
  context, the colour being the text \<^verbatim>\<open>undefined\<close> when the root has none.
\<close>

theorem sink_metadata_of_root:
  assumes "\<not> quiet (env rt)" and "sink_enabled (root_of this)"
  shows "map w_metadata (sink (log rt this level message data important [] True s)) =
         map w_metadata (sink s) @
           [\<lparr>severity = toUpperCase (level_str (if level = LSuccess then LInfo else level)),
             resource_type = ''global'', resource_timestamp = now rt,
             label_name = name (ctx (root_of this)),
             label_color = (case color (ctx (root_of this)) of
                              None \<Rightarrow> ''undefined'' | Some k \<Rightarrow> k)\<rparr>]"
  using assms by (simp add: log_to_root root_log_metadata)

theorem sink_metadata_of_root_witness:
  "\<not> quiet (env rt0) \<and> sink_enabled (root_of loggerD)
   \<and> map w_metadata (sink (log rt0 loggerD LSuccess ''ok'' None False [] True s0)) =
       [\<lparr>severity = ''INFO'', resource_type = ''global'', resource_timestamp = 1700000000,
         label_name = ''A'', label_color = ''undefined''\<rparr>]"
proof -
  have e: "sink_enabled (root_of loggerD)"
    by (simp add: scenario_D loggerA_enabled)
  have n: "now rt0 = 1700000000"
    by (simp add: rt0_def)
  have a: "map w_metadata (sink (log rt0 loggerD LSuccess ''ok'' None False [] True s0)) =
       [\<lparr>severity = ''INFO'', resource_type = ''global'', resource_timestamp = 1700000000,
         label_name = ''A'', label_color = ''undefined''\<rparr>]"
    using sink_metadata_of_root [OF rt0_not_quiet e, of LSuccess "''ok''" None False s0]
    by (simp add: scenario_D scenario_ctx s0_empty severity_names n)
  from rt0_not_quiet e a show ?thesis by blast
qed

subsection \<open>The body of a sink write\<close>

text \<open>
  C7, as claimed: at any level, data supplied by the caller is appended after a
  newline to the body sent to the sink. For \<^verbatim>\<open>A.warn("w", { k: 'v' })\<close> the body
  is the line alone: the root passes \<^verbatim>\<open>null\<close> as data to \<^verbatim>\<open>writeCloudLogging\<close>
  unless the level is \<^verbatim>\<open>error\<close>.
\<close>

theorem sink_data_any_level_counterexample:
  "map w_body (sink (warn rt0 loggerA ''w'' (Some 0) False s1)) =
     [''WARN *'' @ [CHR 0x09] @ ''[A]'' @ [CHR 0x09] @ ''w'']
   \<and> map w_body (sink (warn rt0 loggerA ''w'' (Some 0) False s1)) \<noteq>
     [''WARN *'' @ [CHR 0x09] @ ''[A]'' @ [CHR 0x09] @ ''w'' @ [CHR 0x0A] @ inspect rt0 (heap s1 0)]"
  by (simp add: warn_def log_to_root [OF rt0_not_quiet] root_log_body scenario_roots
        scenario_descent scenario_ctx loggerA_enabled s1_empty rt0_log_text rt0_paint rt0_strip)

text \<open>
  C7, amended. For a call that is not quiet under a root with both credentials,
  the body of the sink write is the stripped line, followed for the level
  \<^verbatim>\<open>error\<close> with data by a newline and the inspected data object; at every other
  level, and without data, the body is the stripped line alone.
\<close>

theorem sink_body_data_for_errors:
  assumes "\<not> quiet (env rt)" and "sink_enabled (root_of this)"
  shows "map w_body (sink (log rt this level message data important [] True s)) =
         map w_body (sink s) @
           [stripAnsi rt (log_text rt (root_of this) level message important (descent this)) @
            (case data of
               Some a \<Rightarrow> if level = LError then CHR 0x0A # inspect rt (heap s a) else []
             | None \<Rightarrow> [])]"
  using assms by (simp add: log_to_root root_log_body)

theorem sink_body_data_for_errors_witness:
  "\<not> quiet (env rt0) \<and> sink_enabled (root_of loggerA)
   \<and> map w_body (sink (log rt0 loggerA LError ''bad'' (Some 0) False [] True s1)) =
       [''ERR  *'' @ [CHR 0x09] @ ''[A]'' @ [CHR 0x09] @ ''bad'' @ [CHR 0x0A] @ ''{ k: v }'']
   \<and> map w_body (sink (log rt0 loggerA LInfo ''fine'' (Some 0) False [] True s1)) =
       [''INFO *'' @ [CHR 0x09] @ ''[A]'' @ [CHR 0x09] @ ''fine'']"
proof -
  have e: "sink_enabled (root_of loggerA)"
    by (simp add: scenario_roots loggerA_enabled)
  have a: "map w_body (sink (log rt0 loggerA LError ''bad'' (Some 0) False [] True s1)) =
       [''ERR  *'' @ [CHR 0x09] @ ''[A]'' @ [CHR 0x09] @ ''bad'' @ [CHR 0x0A] @ ''{ k: v }'']"
    using sink_body_data_for_errors [OF rt0_not_quiet e, of LError "''bad''" "Some 0" False s1]
    by (simp add: scenario_roots scenario_descent scenario_ctx s1_empty rt0_log_text rt0_paint
          rt0_strip inspect0_def)
  have b: "map w_body (sink (log rt0 loggerA LInfo ''fine'' (Some 0) False [] True s1)) =
       [''INFO *'' @ [CHR 0x09] @ ''[A]'' @ [CHR 0x09] @ ''fine'']"
    using sink_body_data_for_errors [OF rt0_not_quiet e, of LInfo "''fine''" "Some 0" False s1]
    by (simp add: scenario_roots scenario_descent scenario_ctx s1_empty rt0_log_text rt0_paint
          rt0_strip)
  from rt0_not_quiet e a b show ?thesis by blast
qed

subsection \<open>The severity of a sink write\<close>

text \<open>
  C8. A sink write carries the severity \<^verbatim>\<open>INFO\<close> for the level \<^verbatim>\<open>success\<close> (so
  never \<^verbatim>\<open>SUCCESS\<close>), and for every other level its own name in upper case:
  \<^verbatim>\<open>ERROR\<close>, \<^verbatim>\<open>WARNING\<close>, \<^verbatim>\<open>DEBUG\<close>, \<^verbatim>\<open>INFO\<close>. Stated for every call that is
  forwarded (not quiet, root with both credentials), and for \<^verbatim>\<open>succ\<close> itself.
\<close>

theorem success_severity_is_info:
  assumes "\<not> quiet (env rt)" and "sink_enabled (root_of this)"
  shows "map entry_severity (sink (log rt this level message data important [] True s)) =
         map entry_severity (sink s) @
           [case level of
              LError \<Rightarrow> ''ERROR'' | LSuccess \<Rightarrow> ''INFO'' | LWarning \<Rightarrow> ''WARNING''
            | LDebug \<Rightarrow> ''DEBUG'' | LInfo \<Rightarrow> ''INFO'']
       \<and> map entry_severity (sink (succ rt this message data important s)) =
         map entry_severity (sink s) @ [''INFO'']"
  using assms
  by (cases level)
     (simp_all add: succ_def log_to_root entry_severity_map root_log_metadata severity_names)

theorem success_severity_is_info_witness:
  "\<not> quiet (env rt0) \<and> sink_enabled (root_of loggerB)
   \<and> map entry_severity (sink (succ rt0 loggerB ''ok'' None False s0)) = [''INFO'']
   \<and> map entry_severity (sink (succ rt0 loggerB ''ok'' None False s0)) \<noteq> [''SUCCESS'']
   \<and> map entry_severity (sink (log rt0 loggerB LWarning ''hm'' None False [] True s0)) = [''WARNING'']"
proof -
  have e: "sink_enabled (root_of loggerB)"
    by (simp add: scenario_roots loggerA_enabled)
  have a: "map entry_severity (sink (succ rt0 loggerB ''ok'' None False s0)) = [''INFO'']"
    using success_severity_is_info [OF rt0_not_quiet e, of LSuccess "''ok''" None False s0]
    by (simp add: s0_empty)
  have b: "map entry_severity (sink (log rt0 loggerB LWarning ''hm'' None False [] True s0)) = [''WARNING'']"
    using success_severity_is_info [OF rt0_not_quiet e, of LWarning "''hm''" None False s0]
    by (simp add: s0_empty)
  from rt0_not_quiet e a b show ?thesis by simp
qed

subsection \<open>The two forms of an error call\<close>

text \<open>
  C9. \<^verbatim>\<open>error(m)\<close> with a string and \<^verbatim>\<open>error(e)\<close> with an \<^verbatim>\<open>Error\<close> instance, both
  without data and not important, each print one console line; the line of the
  string form contains \<open>m\<close> and the line of the \<^verbatim>\<open>Error\<close> form contains the
  message of \<open>e\<close> (its text is \<^verbatim>\<open>e.toString()\<close>), provided \<^verbatim>\<open>chalk.red\<close> keeps the
  text it styles. Only the \<^verbatim>\<open>Error\<close> form attaches a data object, holding \<open>e\<close>
  under the key \<^verbatim>\<open>e\<close>, which is printed after the line; the string form passes
  its data argument on as it is. The claim's case is \<open>m\<close> = \<^verbatim>\<open>boom\<close> and
  \<open>e\<close> = \<^verbatim>\<open>new Error("boom")\<close>.
\<close>

theorem error_string_and_Error_forms:
  assumes "\<not> quiet (env rt)"
    and "sublist m (red (chalk rt) m)"
    and "sublist (error_toString e) (red (chalk rt) (error_toString e))"
  shows "console (error rt this (XString m) None False s) =
           console s @ [Line (log_text rt (root_of this) LError m False (descent this))]
       \<and> sublist m (log_text rt (root_of this) LError m False (descent this))
       \<and> console (error rt this (XError e) None False s) =
           console s @
             [Line (log_text rt (root_of this) LError (error_toString e) False (descent this)),
              Dump [''e'' \<mapsto> VErr e]]
       \<and> sublist (err_message e)
             (log_text rt (root_of this) LError (error_toString e) False (descent this))
       \<and> error rt this (XString m) data important s =
           log rt this LError m data important [] True s"
proof -
  have a: "console (error rt this (XString m) None False s) =
           console s @ [Line (log_text rt (root_of this) LError m False (descent this))]"
    using assms(1) by (simp add: error_string log_to_root root_log_console)
  have b: "sublist m (log_text rt (root_of this) LError m False (descent this))"
    using assms(2) by (rule sublist_message) simp
  have c: "console (error rt this (XError e) None False s) =
           console s @
             [Line (log_text rt (root_of this) LError (error_toString e) False (descent this)),
              Dump [''e'' \<mapsto> VErr e]]"
    using assms(1) by (simp add: error_Error_none log_to_root root_log_console)
  have d: "sublist (err_message e)
             (log_text rt (root_of this) LError (error_toString e) False (descent this))"
    using assms(3) sublist_error_toString by (rule sublist_message)
  from a b c d show ?thesis
    by (simp only: error_string simp_thms)
qed

theorem error_string_and_Error_forms_witness:
  "\<not> quiet (env rt0)
   \<and> sublist ''boom'' (red (chalk rt0) ''boom'')
   \<and> sublist (error_toString boom) (red (chalk rt0) (error_toString boom))
   \<and> console (error rt0 loggerA (XString ''boom'') None False s0) =
       [Line (''ERR  *'' @ [CHR 0x09] @ ''[A]'' @ [CHR 0x09] @ ''boom'')]
   \<and> console (error rt0 loggerA (XError boom) None False s0) =
       [Line (''ERR  *'' @ [CHR 0x09] @ ''[A]'' @ [CHR 0x09] @ ''Error: boom''),
        Dump [''e'' \<mapsto> VErr boom]]
   \<and> sublist ''boom'' (''ERR  *'' @ [CHR 0x09] @ ''[A]'' @ [CHR 0x09] @ ''boom'')
   \<and> sublist ''boom'' (''ERR  *'' @ [CHR 0x09] @ ''[A]'' @ [CHR 0x09] @ ''Error: boom'')"
proof -
  have r: "red (chalk rt0) t = t" for t
    by (simp add: rt0_def plain_chalk_def)
  have h1: "sublist ''boom'' (red (chalk rt0) ''boom'')"
    by (simp add: r)
  have h2: "sublist (error_toString boom) (red (chalk rt0) (error_toString boom))"
    by (simp add: r)
  have ts: "error_toString boom = ''Error: boom''" "err_message boom = ''boom''"
    by (simp_all add: error_toString_def boom_def)
  note t = error_string_and_Error_forms [OF rt0_not_quiet h1 h2, of loggerA s0 None False]
  have a: "console (error rt0 loggerA (XString ''boom'') None False s0) =
       [Line (''ERR  *'' @ [CHR 0x09] @ ''[A]'' @ [CHR 0x09] @ ''boom'')]"
    using t [THEN conjunct1]
    by (simp add: scenario_roots scenario_descent scenario_ctx s0_empty rt0_log_text rt0_paint)
  have b: "sublist ''boom'' (''ERR  *'' @ [CHR 0x09] @ ''[A]'' @ [CHR 0x09] @ ''boom'')"
    using t [THEN conjunct2, THEN conjunct1]
    by (simp add: scenario_roots scenario_descent scenario_ctx rt0_log_text rt0_paint)
  have c: "console (error rt0 loggerA (XError boom) None False s0) =
       [Line (''ERR  *'' @ [CHR 0x09] @ ''[A]'' @ [CHR 0x09] @ ''Error: boom''),
        Dump [''e'' \<mapsto> VErr boom]]"
    using t [THEN conjunct2, THEN conjunct2, THEN conjunct1]
    by (simp add: scenario_roots scenario_descent scenario_ctx s0_empty rt0_log_text rt0_paint ts)
  have d: "sublist ''boom'' (''ERR  *'' @ [CHR 0x09] @ ''[A]'' @ [CHR 0x09] @ ''Error: boom'')"
    using t [THEN conjunct2, THEN conjunct2, THEN conjunct2, THEN conjunct1]
    by (simp add: scenario_roots scenario_descent scenario_ctx rt0_log_text rt0_paint ts)
  from rt0_not_quiet h1 h2 a b c d show ?thesis by blast
qed

text \<open>
  C10. \<^verbatim>\<open>error(x, data)\<close> with an \<^verbatim>\<open>Error\<close> instance and a data object of the
  caller writes the error under the key \<^verbatim>\<open>e\<close> of that very object and changes
  nothing else on the heap (also when the call is quiet); with a string or an
  object that is no \<^verbatim>\<open>Error\<close>, the heap, and so the caller's object, stays as it
  was.
\<close>

theorem error_mutates_data_of_Error_only:
  "heap (error rt this (XError e) (Some a) important s) =
     (heap s)(a := (heap s a)(''e'' \<mapsto> VErr e))
   \<and> heap (error rt this (XString m) data important s) = heap s
   \<and> heap (error rt this (XObject mo no so) data important s) = heap s"
  by (simp add: error_Error_some error_string error_object)

theorem error_mutates_data_of_Error_only_witness:
  "heap (error rt0 loggerA (XError boom) (Some 0) False s1) 0 =
     [''k'' \<mapsto> VStr ''v'', ''e'' \<mapsto> VErr boom]
   \<and> heap (error rt0 loggerA (XString ''boom'') (Some 0) False s1) 0 = [''k'' \<mapsto> VStr ''v'']
   \<and> heap (error rt0 loggerA (XObject (Some ''boom'') None ''[object Object]'') (Some 0) False s1) 0 =
     [''k'' \<mapsto> VStr ''v'']"
  using error_mutates_data_of_Error_only
          [of rt0 loggerA boom 0 False s1 "''boom''" "Some 0" "Some ''boom''" None "''[object Object]''"]
  by (simp add: s1_empty)

end
